theory Spec2Isabelle
  imports Complex_Main "HOL-Library.Stream"
begin

section \<open>Python and torch values\<close>

text \<open>
  The exceptions the two modules can raise. \<open>KeyError\<close> comes from a dictionary
  lookup, \<open>IndexError\<close> from indexing a tensor out of range, \<open>ZeroDivisionError\<close>
  from Python's own \<open>/\<close>, \<open>RuntimeError\<close> from \<open>torch.multinomial\<close>.
\<close>

datatype py_error = KeyError | IndexError | ZeroDivisionError | RuntimeError

text \<open>
  An element of a float tensor (and a Python float). The special values of IEEE 754
  are kept, because the code produces them (\<open>log 0\<close>, \<open>0 / 0\<close>); a finite value is
  a real number and arithmetic on finite values is exact: rounding, overflow and the
  sign of zero are not part of this model.
\<close>

datatype fval = Fin real | PInf | NInf | NaN

fun fadd :: "fval \<Rightarrow> fval \<Rightarrow> fval" where
  "fadd (Fin a) (Fin b) = Fin (a + b)"
| "fadd NaN _ = NaN"
| "fadd _ NaN = NaN"
| "fadd PInf NInf = NaN"
| "fadd NInf PInf = NaN"
| "fadd PInf _ = PInf"
| "fadd _ PInf = PInf"
| "fadd NInf _ = NInf"
| "fadd _ NInf = NInf"

fun fneg :: "fval \<Rightarrow> fval" where
  "fneg (Fin a) = Fin (- a)"
| "fneg PInf = NInf"
| "fneg NInf = PInf"
| "fneg NaN = NaN"

text \<open>
  Division of tensor elements never raises: a zero divisor gives an infinity, and
  \<open>0 / 0\<close> gives NaN.
\<close>

fun fdiv :: "fval \<Rightarrow> fval \<Rightarrow> fval" where
  "fdiv (Fin a) (Fin b) =
     (if b \<noteq> 0 then Fin (a / b)
      else if 0 < a then PInf
      else if a < 0 then NInf
      else NaN)"
| "fdiv NaN _ = NaN"
| "fdiv _ NaN = NaN"
| "fdiv (Fin a) PInf = Fin 0"
| "fdiv (Fin a) NInf = Fin 0"
| "fdiv PInf (Fin b) = (if b < 0 then NInf else PInf)"
| "fdiv NInf (Fin b) = (if b < 0 then PInf else NInf)"
| "fdiv PInf PInf = NaN"
| "fdiv PInf NInf = NaN"
| "fdiv NInf PInf = NaN"
| "fdiv NInf NInf = NaN"

text \<open>\<open>torch.log\<close>: the natural logarithm, \<open>-inf\<close> at zero and NaN below it.\<close>

fun flog :: "fval \<Rightarrow> fval" where
  "flog (Fin a) = (if 0 < a then Fin (ln a) else if a = 0 then NInf else NaN)"
| "flog PInf = PInf"
| "flog NInf = NaN"
| "flog NaN = NaN"

text \<open>
  A dictionary is an association list in insertion order; its keys are distinct in
  Python, and \<open>len\<close> counts the keys.
\<close>

type_synonym ('k, 'v) dict = "('k \<times> 'v) list"

definition getitem :: "('k, 'v) dict \<Rightarrow> 'k \<Rightarrow> py_error + 'v" where
  "getitem d k = (case map_of d k of None \<Rightarrow> Inl KeyError | Some v \<Rightarrow> Inr v)"


text \<open>
  A 2-D float tensor is the list of its rows. An index is a Python int: a negative
  one counts from the end, and one outside \<open>[-n, n)\<close> raises \<open>IndexError\<close>.
\<close>

type_synonym tensor = "fval list list"

definition norm_index :: "int \<Rightarrow> nat \<Rightarrow> py_error + nat" where
  "norm_index i n =
     (if 0 \<le> i \<and> i < int n then Inr (nat i)
      else if - int n \<le> i \<and> i < 0 then Inr (nat (int n + i))
      else Inl IndexError)"

definition tensor_row :: "tensor \<Rightarrow> int \<Rightarrow> py_error + fval list" where
  "tensor_row t i =
     (case norm_index i (length t) of Inl e \<Rightarrow> Inl e | Inr r \<Rightarrow> Inr (t ! r))"

definition tensor_get :: "tensor \<Rightarrow> int \<Rightarrow> int \<Rightarrow> py_error + fval" where
  "tensor_get t i j =
     (case tensor_row t i of
        Inl e \<Rightarrow> Inl e
      | Inr row \<Rightarrow>
          (case norm_index j (length row) of Inl e \<Rightarrow> Inl e | Inr c \<Rightarrow> Inr (row ! c)))"

section \<open>bigram\_model.py: scoring\<close>

text \<open>
  \<open>processed_word = [start_token, *word, end_token]\<close>: a list of symbols, each a
  Python string; the characters of the word become one-character strings.
\<close>

definition processed_word :: "string \<Rightarrow> string \<Rightarrow> string \<Rightarrow> string list" where
  "processed_word start_token word end_token =
     start_token # map (\<lambda>c. [c]) word @ [end_token]"

text \<open>
  The body of the loop \<open>for i in range(len(processed_word)-1)\<close>, over the list of
  the indices still to visit. The two dictionary lookups are evaluated left to right,
  then the tensor is indexed; the first exception ends the loop.
\<close>

fun log_likelihood_loop ::
  "tensor \<Rightarrow> (string, int) dict \<Rightarrow> string list \<Rightarrow> nat list \<Rightarrow> fval \<Rightarrow> py_error + fval" where
  "log_likelihood_loop probs c2i pw [] acc = Inr acc"
| "log_likelihood_loop probs c2i pw (i # is) acc =
     (case getitem c2i (pw ! i) of
        Inl e \<Rightarrow> Inl e
      | Inr a \<Rightarrow>
          (case getitem c2i (pw ! (i + 1)) of
             Inl e \<Rightarrow> Inl e
           | Inr b \<Rightarrow>
               (case tensor_get probs a b of
                  Inl e \<Rightarrow> Inl e
                | Inr p \<Rightarrow> log_likelihood_loop probs c2i pw is (fadd acc (flog p)))))"

definition calculate_log_likelihood ::
  "string \<Rightarrow> tensor \<Rightarrow> (string, int) dict \<Rightarrow> string \<Rightarrow> string \<Rightarrow> py_error + fval" where
  "calculate_log_likelihood word bigram_probabilities char_to_index start_token end_token =
     (let pw = processed_word start_token word end_token
      in log_likelihood_loop bigram_probabilities char_to_index pw
           [0 ..< length pw - 1] (Fin 0))"

text \<open>
  \<open>list(map(calc_loglike_func, words))\<close>: every word is scored, in order, and the
  first exception is the call's. \<open>str.lower\<close> is the library's; it is the parameter
  \<open>lower\<close>.
\<close>

fun map_log_likelihoods ::
  "(string \<Rightarrow> string) \<Rightarrow> string list \<Rightarrow> tensor \<Rightarrow> (string, int) dict \<Rightarrow> string \<Rightarrow> string
     \<Rightarrow> py_error + fval list" where
  "map_log_likelihoods lower [] probs c2i s e = Inr []"
| "map_log_likelihoods lower (x # xs) probs c2i s e =
     (case calculate_log_likelihood (lower x) probs c2i s e of
        Inl err \<Rightarrow> Inl err
      | Inr v \<Rightarrow>
          (case map_log_likelihoods lower xs probs c2i s e of
             Inl err \<Rightarrow> Inl err
           | Inr vs \<Rightarrow> Inr (v # vs)))"

text \<open>Python's \<open>sum\<close> starts from 0 and adds from the left.\<close>

definition py_sum :: "fval list \<Rightarrow> fval" where
  "py_sum xs = foldl fadd (Fin 0) xs"

text \<open>Python's \<open>/\<close> of a number by a \<open>len\<close>: it raises when the divisor is zero.\<close>

definition py_truediv :: "fval \<Rightarrow> nat \<Rightarrow> py_error + fval" where
  "py_truediv x n = (if n = 0 then Inl ZeroDivisionError else Inr (fdiv x (Fin (real n))))"

definition calculate_neg_mean_log_likelihood ::
  "(string \<Rightarrow> string) \<Rightarrow> string list \<Rightarrow> tensor \<Rightarrow> (string, int) dict \<Rightarrow> string \<Rightarrow> string
     \<Rightarrow> py_error + fval" where
  "calculate_neg_mean_log_likelihood lower words bigram_probabilities char_to_index
       start_token end_token =
     (case map_log_likelihoods lower words bigram_probabilities char_to_index
             start_token end_token of
        Inl err \<Rightarrow> Inl err
      | Inr log_likelihoods \<Rightarrow>
          (case py_truediv (py_sum log_likelihoods) (length log_likelihoods) of
             Inl err \<Rightarrow> Inl err
           | Inr m \<Rightarrow> Inr (fneg m)))"

text \<open>
  The reading of the scoring that the specification gives: the adjacent pairs of the
  bracketed sequence, the logarithm of the probability looked up for each pair (the
  symbols are looked up in the dictionary, the tensor is indexed as Python does), and
  the sum of these from the left, starting at 0.
\<close>

definition adjacent_pairs :: "'a list \<Rightarrow> ('a \<times> 'a) list" where
  "adjacent_pairs xs = zip xs (tl xs)"

definition pair_log ::
  "tensor \<Rightarrow> (string, int) dict \<Rightarrow> string \<times> string \<Rightarrow> py_error + fval" where
  "pair_log probs c2i pr =
     (case tensor_get probs (the (map_of c2i (fst pr))) (the (map_of c2i (snd pr))) of
        Inl e \<Rightarrow> Inl e
      | Inr p \<Rightarrow> Inr (flog p))"

fun sum_results :: "(py_error + fval) list \<Rightarrow> fval \<Rightarrow> py_error + fval" where
  "sum_results [] acc = Inr acc"
| "sum_results (r # rs) acc =
     (case r of Inl e \<Rightarrow> Inl e | Inr v \<Rightarrow> sum_results rs (fadd acc v))"

text \<open>
  The toy vocabulary of the specification: the start symbol, \<open>a\<close> and the end symbol;
  the start symbol is always followed by \<open>a\<close>, and \<open>a\<close> by the end symbol.
\<close>

definition toy_c2i :: "(string, int) dict" where
  "toy_c2i = [(''<S>'', 0), (''a'', 1), (''<E>'', 2)]"

definition toy_i2c :: "(int, string) dict" where
  "toy_i2c = [(0, ''<S>''), (1, ''a''), (2, ''<E>'')]"

definition toy_probs :: tensor where
  "toy_probs = [[Fin 0, Fin 1, Fin 0], [Fin 0, Fin 0, Fin 1], [Fin 0, Fin 0, Fin 0]]"

text \<open>A lower-casing for words over \<open>a\<close> and \<open>A\<close>.\<close>

definition toy_lower :: "string \<Rightarrow> string" where
  "toy_lower = map (\<lambda>c. if c = CHR ''A'' then CHR ''a'' else c)"

section \<open>bigram\_model.py: counts to probabilities\<close>

text \<open>
  \<open>bigrams_count_to_probabilities\<close> works in place (\<open>+=\<close>, \<open>/=\<close>) on a tensor it
  obtained with \<open>clone()\<close>, so tensors are objects in a store here: a reference is a
  position in the list of the tensors allocated so far, and an allocation appends.
\<close>

type_synonym ref = nat
type_synonym heap = "tensor list"

text \<open>\<open>t.clone()\<close>: a new tensor with the elements of \<open>t\<close>.\<close>

definition clone :: "heap \<Rightarrow> ref \<Rightarrow> heap \<times> ref" where
  "clone h a = (h @ [h ! a], length h)"

text \<open>\<open>t += s\<close> for a number \<open>s\<close>: every element of the tensor at \<open>a\<close> is replaced.\<close>

definition iadd_scalar :: "heap \<Rightarrow> ref \<Rightarrow> real \<Rightarrow> heap" where
  "iadd_scalar h a s = h[a := map (map (\<lambda>x. fadd x (Fin s))) (h ! a)]"

text \<open>
  \<open>t.sum(dim=1, keepdim=True)\<close>: a new tensor, a column holding the sum of each
  row. The order in which torch adds the elements of a row is its own; in exact
  arithmetic the order does not matter, and the sum is taken from the left.
\<close>

definition row_sum :: "fval list \<Rightarrow> fval" where
  "row_sum r = foldl fadd (Fin 0) r"

definition sum_dim1_keepdim :: "heap \<Rightarrow> ref \<Rightarrow> heap \<times> ref" where
  "sum_dim1_keepdim h a = (h @ [map (\<lambda>r. [row_sum r]) (h ! a)], length h)"

text \<open>
  \<open>t /= c\<close> for a column \<open>c\<close>, by broadcasting: every element of row \<open>i\<close> of the
  tensor at \<open>a\<close> is divided by the one element of row \<open>i\<close> of \<open>c\<close>.
\<close>

definition idiv_rows :: "heap \<Rightarrow> ref \<Rightarrow> ref \<Rightarrow> heap" where
  "idiv_rows h a b =
     h[a := map2 (\<lambda>row s. map (\<lambda>x. fdiv x (hd s)) row) (h ! a) (h ! b)]"

definition bigrams_count_to_probabilities :: "heap \<Rightarrow> ref \<Rightarrow> real \<Rightarrow> heap \<times> ref" where
  "bigrams_count_to_probabilities h bigram_counts smooth_factor =
     (let (h1, new_tensor) = clone h bigram_counts;
          h2 = iadd_scalar h1 new_tensor smooth_factor;
          (h3, rows_summed) = sum_dim1_keepdim h2 new_tensor;
          h4 = idiv_rows h3 new_tensor rows_summed
      in (h4, new_tensor))"

text \<open>The value of one row of the result, as a function of the row of counts.\<close>

definition normalised_row :: "real \<Rightarrow> fval list \<Rightarrow> fval list" where
  "normalised_row s row =
     map (\<lambda>x. fdiv (fadd x (Fin s)) (row_sum (map (\<lambda>y. fadd y (Fin s)) row))) row"

text \<open>A count matrix with a row of zeros, alone in the store.\<close>

definition zero_row_counts :: heap where
  "zero_row_counts = [[[Fin 0, Fin 0], [Fin 1, Fin 3]]]"

section \<open>bigram\_model.py: generation\<close>

text \<open>
  \<open>torch.multinomial(weights, num_samples=1)\<close> is the library's. Its contract, as
  torch documents it: the weights need not sum to one, but must be non-negative and
  finite with a non-zero sum, and it raises \<open>RuntimeError\<close> otherwise; an entry of
  weight zero is never drawn. Which of the remaining indices it returns is decided by
  the random generator: here by the draw \<open>d\<close>, a number the generator supplies, so
  that every index of positive weight is the outcome of some draw.
\<close>

definition valid_weight :: "fval \<Rightarrow> bool" where
  "valid_weight x = (case x of Fin a \<Rightarrow> 0 \<le> a | _ \<Rightarrow> False)"

definition weight :: "fval \<Rightarrow> real" where
  "weight x = (case x of Fin a \<Rightarrow> a | _ \<Rightarrow> 0)"

definition candidates :: "fval list \<Rightarrow> nat list" where
  "candidates w = filter (\<lambda>j. 0 < weight (w ! j)) [0 ..< length w]"

definition multinomial :: "fval list \<Rightarrow> nat \<Rightarrow> py_error + nat" where
  "multinomial w d =
     (if \<not> list_all valid_weight w then Inl RuntimeError
      else if sum_list (map weight w) \<le> 0 then Inl RuntimeError
      else Inr (candidates w ! (d mod length (candidates w))))"

definition sample_next_character ::
  "int \<Rightarrow> tensor \<Rightarrow> (int, string) dict \<Rightarrow> nat \<Rightarrow> py_error + string" where
  "sample_next_character current_char_index probability_distribution idx_to_char d =
     (case tensor_row probability_distribution current_char_index of
        Inl e \<Rightarrow> Inl e
      | Inr current_probs \<Rightarrow>
          (case multinomial current_probs d of
             Inl e \<Rightarrow> Inl e
           | Inr next_char_index \<Rightarrow> getitem idx_to_char (int next_char_index)))"

text \<open>
  The loop \<open>for _ in range(max_length)\<close> of \<open>generate_name\<close>, with the number of
  iterations left, the current symbol and the symbols appended so far. The random
  generator is the stream of its draws; each sampling takes the next one. The lookup
  \<open>char_to_idx[current_char]\<close> is evaluated before the sampling.
\<close>

fun generate_loop ::
  "nat \<Rightarrow> string \<Rightarrow> string list \<Rightarrow> string \<Rightarrow> (string, int) dict \<Rightarrow> (int, string) dict
     \<Rightarrow> tensor \<Rightarrow> nat stream \<Rightarrow> py_error + string list" where
  "generate_loop 0 current_char emitted end_token c2i i2c probs rng = Inr emitted"
| "generate_loop (Suc n) current_char emitted end_token c2i i2c probs rng =
     (case getitem c2i current_char of
        Inl e \<Rightarrow> Inl e
      | Inr i \<Rightarrow>
          (case sample_next_character i probs i2c (shd rng) of
             Inl e \<Rightarrow> Inl e
           | Inr c \<Rightarrow>
               if c = end_token then Inr emitted
               else generate_loop n c (emitted @ [c]) end_token c2i i2c probs (stl rng)))"

text \<open>
  \<open>generated_name\<close> is a Python string, built by \<open>generated_name += current_char\<close>:
  the concatenation of the symbols appended. \<open>generated_symbols\<close> is the sequence of
  these symbols, \<open>generate_name\<close> the string returned. \<open>range(max_length)\<close> is empty
  for a \<open>max_length\<close> below 1.
\<close>

definition generated_symbols ::
  "string \<Rightarrow> string \<Rightarrow> (string, int) dict \<Rightarrow> (int, string) dict \<Rightarrow> tensor \<Rightarrow> int
     \<Rightarrow> nat stream \<Rightarrow> py_error + string list" where
  "generated_symbols start_token end_token char_to_idx idx_to_char bigram_probabilities
       max_length rng =
     generate_loop (nat max_length) start_token [] end_token char_to_idx idx_to_char
       bigram_probabilities rng"

definition generate_name ::
  "string \<Rightarrow> string \<Rightarrow> (string, int) dict \<Rightarrow> (int, string) dict \<Rightarrow> tensor \<Rightarrow> int
     \<Rightarrow> nat stream \<Rightarrow> py_error + string" where
  "generate_name start_token end_token char_to_idx idx_to_char bigram_probabilities
       max_length rng =
     (case generated_symbols start_token end_token char_to_idx idx_to_char
             bigram_probabilities max_length rng of
        Inl e \<Rightarrow> Inl e
      | Inr symbols \<Rightarrow> Inr (concat symbols))"

text \<open>
  The state machine of the specification, in its words: before each step it stops when
  \<open>max_len\<close> symbols have been emitted; otherwise it samples the next symbol from the
  row of the current one, stops when that is the end symbol, and else appends it and
  moves to it.
\<close>

function generate_spec ::
  "nat \<Rightarrow> string \<Rightarrow> string list \<Rightarrow> string \<Rightarrow> (string, int) dict \<Rightarrow> (int, string) dict
     \<Rightarrow> tensor \<Rightarrow> nat stream \<Rightarrow> py_error + string list" where
  "generate_spec max_len current emitted end_token c2i i2c probs rng =
     (if max_len \<le> length emitted then Inr emitted
      else
        (case getitem c2i current of
           Inl e \<Rightarrow> Inl e
         | Inr i \<Rightarrow>
             (case sample_next_character i probs i2c (shd rng) of
                Inl e \<Rightarrow> Inl e
              | Inr c \<Rightarrow>
                  if c = end_token then Inr emitted
                  else generate_spec max_len c (emitted @ [c]) end_token c2i i2c probs
                         (stl rng))))"
  by pat_completeness auto
termination
  by (relation "measure (\<lambda>(m, cur, em, rest). m - length em)") auto

text \<open>
  A probability matrix over the toy vocabulary in which the start symbol is always
  followed by the start symbol.
\<close>

definition loop_probs :: tensor where
  "loop_probs = [[Fin 1, Fin 0, Fin 0], [Fin 0, Fin 0, Fin 1], [Fin 0, Fin 0, Fin 0]]"

section \<open>data\_processing.py: counting bigrams\<close>












section \<open>Scoring: the mean over no word and over one word\<close>

lemma fadd_zero_left: "fadd (Fin 0) v = v"
  by (cases v) simp_all

lemma fdiv_one: "fdiv v (Fin 1) = v"
  by (cases v) simp_all

text \<open>
  Claim C8. Over the empty list of words there is nothing to average: the division by
  \<open>len(log_likelihoods) = 0\<close> raises \<open>ZeroDivisionError\<close>, and no number is returned.
\<close>

theorem neg_mean_empty_raises:
  "calculate_neg_mean_log_likelihood lower [] probs c2i s e = Inl ZeroDivisionError"
  by (simp add: calculate_neg_mean_log_likelihood_def py_truediv_def)

lemma toy_log_likelihood:
  "calculate_log_likelihood ''a'' toy_probs toy_c2i ''<S>'' ''<E>'' = Inr (Fin 0)"
  by (simp add: calculate_log_likelihood_def processed_word_def getitem_def tensor_get_def
        tensor_row_def norm_index_def upt_conv_Cons toy_probs_def toy_c2i_def)

text \<open>
  Claim C5. Over the one-element list \<open>[w]\<close> the result is the negated log-likelihood
  of the word, which the function lower-cases before scoring it; an exception of the
  scoring is the exception of the call. For a word that is its own lower case this is
  the negated log-likelihood of \<open>w\<close> itself.
\<close>

theorem neg_mean_single_word:
  "calculate_neg_mean_log_likelihood lower [w] probs c2i s e =
     (case calculate_log_likelihood (lower w) probs c2i s e of
        Inl err \<Rightarrow> Inl err
      | Inr v \<Rightarrow> Inr (fneg v))
   \<and> (lower w = w \<longrightarrow>
        calculate_neg_mean_log_likelihood lower [w] probs c2i s e =
          (case calculate_log_likelihood w probs c2i s e of
             Inl err \<Rightarrow> Inl err
           | Inr v \<Rightarrow> Inr (fneg v)))"
  by (simp add: calculate_neg_mean_log_likelihood_def py_truediv_def py_sum_def
        fadd_zero_left fdiv_one split: sum.splits)

theorem neg_mean_single_word_witness:
  "toy_lower ''a'' = ''a''
   \<and> calculate_log_likelihood ''a'' toy_probs toy_c2i ''<S>'' ''<E>'' = Inr (Fin 0)
   \<and> calculate_neg_mean_log_likelihood toy_lower [''a''] toy_probs toy_c2i ''<S>'' ''<E>''
        = Inr (Fin 0)
   \<and> calculate_neg_mean_log_likelihood toy_lower [''A''] toy_probs toy_c2i ''<S>'' ''<E>''
        = Inr (Fin 0)"
proof -
  have l: "toy_lower ''a'' = ''a''" "toy_lower ''A'' = ''a''"
    by (simp_all add: toy_lower_def)
  from neg_mean_single_word[of toy_lower "''a''" toy_probs toy_c2i "''<S>''" "''<E>''"]
    neg_mean_single_word[of toy_lower "''A''" toy_probs toy_c2i "''<S>''" "''<E>''"]
    l toy_log_likelihood
  show ?thesis by simp
qed

section \<open>Scoring: the log-likelihood is the sum over the adjacent pairs\<close>

lemma getitem_present: "map_of d k \<noteq> None \<Longrightarrow> getitem d k = Inr (the (map_of d k))"
  by (auto simp: getitem_def)

text \<open>
  The loop from index \<open>k\<close> on visits the pairs of the sequence from position \<open>k\<close> on.
  The induction is on the number of indices left.
\<close>

lemma log_likelihood_loop_from:
  assumes pres: "\<forall>x \<in> set pw. map_of c2i x \<noteq> None" and n: "n = length pw - 1"
  shows "log_likelihood_loop probs c2i pw [k ..< n] acc =
         sum_results (map (pair_log probs c2i) (zip (drop k pw) (drop (Suc k) pw))) acc"
proof (induction "n - k" arbitrary: k acc)
  case 0
  then have "length pw \<le> Suc k" using n by simp
  with 0 show ?case by simp
next
  case (Suc m)
  then have lt: "Suc k < length pw" and kn: "k < n" using n by simp_all
  then have k: "k < length pw" by simp
  have upt: "[k ..< n] = k # [Suc k ..< n]"
    using kn by (simp add: upt_conv_Cons)
  have d0: "drop k pw = pw ! k # drop (Suc k) pw"
    using k by (simp add: Cons_nth_drop_Suc)
  have d1: "drop (Suc k) pw = pw ! Suc k # drop (Suc (Suc k)) pw"
    using lt by (simp add: Cons_nth_drop_Suc)
  have g0: "getitem c2i (pw ! k) = Inr (the (map_of c2i (pw ! k)))"
    using pres k by (simp add: getitem_present)
  have g1: "getitem c2i (pw ! Suc k) = Inr (the (map_of c2i (pw ! Suc k)))"
    using pres lt by (simp add: getitem_present)
  have IH: "\<And>a. log_likelihood_loop probs c2i pw [Suc k ..< n] a =
      sum_results (map (pair_log probs c2i) (zip (drop (Suc k) pw) (drop (Suc (Suc k)) pw))) a"
    using Suc.hyps(1)[of "Suc k"] Suc.hyps(2) by simp
  have "log_likelihood_loop probs c2i pw (k # [Suc k ..< n]) acc =
        sum_results (map (pair_log probs c2i)
          (zip (pw ! k # drop (Suc k) pw) (pw ! Suc k # drop (Suc (Suc k)) pw))) acc"
    by (simp add: g0 g1 pair_log_def IH split: sum.splits)
  then show ?case
    using upt d0 d1 by simp
qed

text \<open>
  Claim C1. When the start token, the end token and every character of the word are
  keys of \<open>char_to_index\<close>, the log-likelihood is the sum, over the adjacent pairs
  \<open>(prev, next)\<close> of \<open>[start_token, *word, end_token]\<close>, of
  \<open>log(probs[char_to_index[prev]][char_to_index[next]])\<close>; the sequence starts with
  the start token and ends with the end token.
\<close>

theorem log_likelihood_sums_pair_logs:
  assumes "map_of c2i s \<noteq> None" and "map_of c2i e \<noteq> None"
    and "\<forall>c \<in> set w. map_of c2i [c] \<noteq> None"
  shows "calculate_log_likelihood w probs c2i s e =
           sum_results (map (pair_log probs c2i) (adjacent_pairs (processed_word s w e)))
             (Fin 0)
         \<and> hd (processed_word s w e) = s \<and> last (processed_word s w e) = e"
proof -
  have "\<forall>x \<in> set (processed_word s w e). map_of c2i x \<noteq> None"
    using assms by (auto simp: processed_word_def)
  from log_likelihood_loop_from[OF this refl, of probs 0 "Fin 0"]
  have "calculate_log_likelihood w probs c2i s e =
          sum_results (map (pair_log probs c2i) (adjacent_pairs (processed_word s w e)))
            (Fin 0)"
    by (simp add: calculate_log_likelihood_def adjacent_pairs_def drop_Suc Let_def)
  then show ?thesis
    by (simp add: processed_word_def)
qed

theorem log_likelihood_sums_pair_logs_witness:
  "map_of toy_c2i ''<S>'' \<noteq> None \<and> map_of toy_c2i ''<E>'' \<noteq> None
   \<and> map_of toy_c2i ''a'' \<noteq> None
   \<and> calculate_log_likelihood ''a'' toy_probs toy_c2i ''<S>'' ''<E>'' = Inr (Fin 0)
   \<and> sum_results (map (pair_log toy_probs toy_c2i)
        (adjacent_pairs (processed_word ''<S>'' ''a'' ''<E>''))) (Fin 0) = Inr (Fin 0)"
proof -
  have h: "map_of toy_c2i ''<S>'' \<noteq> None" "map_of toy_c2i ''<E>'' \<noteq> None"
    "\<forall>c \<in> set ''a''. map_of toy_c2i [c] \<noteq> None"
    by (simp_all add: toy_c2i_def)
  have v: "sum_results (map (pair_log toy_probs toy_c2i)
        (adjacent_pairs (processed_word ''<S>'' ''a'' ''<E>''))) (Fin 0) = Inr (Fin 0)"
    by (simp add: adjacent_pairs_def processed_word_def pair_log_def toy_c2i_def
          toy_probs_def tensor_get_def tensor_row_def norm_index_def)
  from log_likelihood_sums_pair_logs[OF h, of toy_probs] h v show ?thesis
    by (simp add: toy_c2i_def)
qed

section \<open>Generation\<close>

lemmas toy_eval =
  toy_c2i_def toy_i2c_def toy_probs_def loop_probs_def getitem_def
  sample_next_character_def tensor_row_def norm_index_def multinomial_def candidates_def
  valid_weight_def weight_def upt_conv_Cons

lemma generate_loop_no_end:
  "generate_loop n cur em e c2i i2c probs rng = Inr out \<Longrightarrow> e \<notin> set em \<Longrightarrow> e \<notin> set out"
  by (induction n arbitrary: cur em rng) (auto split: sum.splits if_splits)

lemma generate_loop_length:
  "generate_loop n cur em e c2i i2c probs rng = Inr out \<Longrightarrow> length out \<le> length em + n"
  by (induction n arbitrary: cur em rng) (fastforce split: sum.splits if_splits)+

lemma generate_loop_spec:
  "generate_loop n cur em e c2i i2c probs rng =
   generate_spec (length em + n) cur em e c2i i2c probs rng"
proof (induction n arbitrary: cur em rng)
  case 0
  show ?case by (subst generate_spec.simps) simp
next
  case (Suc n)
  have "generate_loop n c (em @ [c]) e c2i i2c probs r =
        generate_spec (length em + Suc n) c (em @ [c]) e c2i i2c probs r" for c r
    using Suc[of c "em @ [c]" r] by simp
  then show ?case
    by (subst generate_spec.simps) (simp split: sum.splits)
qed

lemma toy_generated:
  "generated_symbols ''<S>'' ''<E>'' toy_c2i toy_i2c toy_probs 5 (sconst 0) = Inr [''a'']"
  by (simp add: generated_symbols_def eval_nat_numeral toy_eval)

text \<open>
  Claim C4, as the code has it. The end token is never among the symbols that
  \<open>generate_name\<close> appends, whatever the matrix, the tokens, \<open>max_length\<close> and the
  draws. Nothing keeps the start token out: it is appended like any other symbol when
  it is sampled.
\<close>

theorem generated_symbols_exclude_end:
  assumes "generated_symbols s e c2i i2c probs max_length rng = Inr out"
  shows "e \<notin> set out"
  using assms generate_loop_no_end[of "nat max_length" s "[]" e c2i i2c probs rng out]
  by (simp add: generated_symbols_def)

theorem generated_symbols_exclude_end_witness:
  "generated_symbols ''<S>'' ''<E>'' toy_c2i toy_i2c toy_probs 5 (sconst 0) = Inr [''a'']
   \<and> ''<E>'' \<notin> set [''a'']"
  using generated_symbols_exclude_end[OF toy_generated] toy_generated by simp

text \<open>
  Claim C4 as stated fails: with a matrix whose start row puts all its weight on the
  start symbol, the one symbol generated for \<open>max_length = 1\<close> is the start token.
\<close>

theorem generate_name_emits_start_counterexample:
  "generated_symbols ''<S>'' ''<E>'' toy_c2i toy_i2c loop_probs 1 (sconst 0) = Inr [''<S>'']
   \<and> generate_name ''<S>'' ''<E>'' toy_c2i toy_i2c loop_probs 1 (sconst 0) = Inr ''<S>''
   \<and> ''<S>'' \<in> set [''<S>'']"
  by (simp add: generate_name_def generated_symbols_def toy_eval)

text \<open>
  Claim C6. \<open>generate_name\<close> is the state machine of the specification: it stops at
  the first sampled end token or when \<open>max_length\<close> symbols have been emitted,
  whichever comes first. So it never returns more than \<open>max_length\<close> symbols.
\<close>

theorem generate_name_stops:
  "generated_symbols s e c2i i2c probs max_length rng =
     generate_spec (nat max_length) s [] e c2i i2c probs rng
   \<and> (\<forall>out. generated_symbols s e c2i i2c probs max_length rng = Inr out
         \<longrightarrow> length out \<le> nat max_length)"
  using generate_loop_spec[of "nat max_length" s "[]" e c2i i2c probs rng]
    generate_loop_length[of "nat max_length" s "[]" e c2i i2c probs rng]
  by (simp add: generated_symbols_def)

theorem generate_name_stops_witness:
  "(0::int) < 5
   \<and> generate_spec (nat 5) ''<S>'' [] ''<E>'' toy_c2i toy_i2c toy_probs (sconst 0) = Inr [''a'']
   \<and> length [''a''] \<le> nat 5"
  using generate_name_stops[of "''<S>''" "''<E>''" toy_c2i toy_i2c toy_probs 5 "sconst 0"]
    toy_generated
  by simp

text \<open>
  Claim C7. Sampling from a row whose entries are all zero raises the
  \<open>RuntimeError\<close> of \<open>torch.multinomial\<close>: \<open>sample_next_character\<close> returns no
  symbol, and an iteration of \<open>generate_name\<close> whose current symbol has such a row
  ends the call with that error.
\<close>

theorem sample_zero_row_raises:
  assumes "tensor_row probs i = Inr row" and "\<forall>x \<in> set row. x = Fin 0"
  shows "sample_next_character i probs i2c d = Inl RuntimeError
         \<and> (getitem c2i cur = Inr i \<longrightarrow>
              generate_loop (Suc n) cur em e c2i i2c probs rng = Inl RuntimeError)"
proof -
  have "sum_list (map weight row) = 0"
    using assms(2) by (induction row) (auto simp: weight_def)
  then have "sample_next_character i probs i2c d = Inl RuntimeError" for d
    using assms(1) by (simp add: sample_next_character_def multinomial_def)
  then show ?thesis by simp
qed

theorem sample_zero_row_raises_witness:
  "tensor_row toy_probs 2 = Inr [Fin 0, Fin 0, Fin 0]
   \<and> sample_next_character 2 toy_probs toy_i2c 0 = Inl RuntimeError
   \<and> getitem toy_c2i ''<E>'' = Inr 2
   \<and> generate_loop (Suc 0) ''<E>'' [] ''<S>'' toy_c2i toy_i2c toy_probs (sconst 0)
       = Inl RuntimeError"
proof -
  have r: "tensor_row toy_probs 2 = Inr [Fin 0, Fin 0, Fin 0]"
    by (simp add: toy_probs_def tensor_row_def norm_index_def)
  have z: "\<forall>x \<in> set [Fin 0, Fin 0, Fin 0]. x = Fin 0" by simp
  have g: "getitem toy_c2i ''<E>'' = Inr 2" by (simp add: toy_c2i_def getitem_def)
  from sample_zero_row_raises[OF r z, of toy_i2c 0 toy_c2i "''<E>''" 0 "[]" "''<S>''" "sconst 0"]
    r g show ?thesis by simp
qed

section \<open>Counts to probabilities\<close>

lemma div_rows_normalised:
  "map2 (\<lambda>row s. map (\<lambda>x. fdiv x (hd s)) row)
     (map (map (\<lambda>x. fadd x (Fin s))) t)
     (map (\<lambda>r. [row_sum (map (\<lambda>y. fadd y (Fin s)) r)]) t)
   = map (normalised_row s) t"
  by (induction t) (simp_all add: normalised_row_def comp_def)

text \<open>
  The store after the call: the tensors it held, then the result, then the column of
  the row sums. The result is the reference of the clone.
\<close>

lemma bigrams_count_to_probabilities_store:
  assumes "a < length h"
  shows "bigrams_count_to_probabilities h a s =
     (h @ [map (normalised_row s) (h ! a),
           map (\<lambda>r. [row_sum (map (\<lambda>y. fadd y (Fin s)) r)]) (h ! a)],
      length h)"
proof -
  let ?sm = "map (map (\<lambda>x. fadd x (Fin s))) (h ! a)"
  let ?rs = "map (\<lambda>r. [row_sum (map (\<lambda>y. fadd y (Fin s)) r)]) (h ! a)"
  have c: "clone h a = (h @ [h ! a], length h)"
    by (simp add: clone_def)
  have i: "iadd_scalar (h @ [h ! a]) (length h) s = h @ [?sm]"
    by (simp add: iadd_scalar_def)
  have r: "sum_dim1_keepdim (h @ [?sm]) (length h) = (h @ [?sm, ?rs], Suc (length h))"
    by (simp add: sum_dim1_keepdim_def comp_def)
  have d: "idiv_rows (h @ [?sm, ?rs]) (length h) (Suc (length h))
        = h @ [map (normalised_row s) (h ! a), ?rs]"
    by (simp add: idiv_rows_def nth_append list_update_append div_rows_normalised)
  show ?thesis
    by (simp add: bigrams_count_to_probabilities_def c i r d)
qed

lemma zero_row_counts_store:
  "bigrams_count_to_probabilities zero_row_counts 0 0 =
     ([[[Fin 0, Fin 0], [Fin 1, Fin 3]],
       [[NaN, NaN], [Fin (1 / 4), Fin (3 / 4)]],
       [[Fin 0], [Fin 4]]], 1)"
  by (simp add: zero_row_counts_def bigrams_count_to_probabilities_store normalised_row_def
        row_sum_def)

text \<open>
  In exact arithmetic a row of finite, non-negative counts whose sum after smoothing
  is positive is normalised: its entries are non-negative and sum to 1. This is a
  statement about real numbers; what rounding in 32-bit floats does to the sum is not
  expressed by this model.
\<close>

lemma foldl_fadd_Fin: "foldl fadd (Fin a) (map Fin ds) = Fin (a + sum_list ds)"
  by (induction ds arbitrary: a) (simp_all add: add.assoc)

lemma row_sum_Fin: "row_sum (map Fin ds) = Fin (sum_list ds)"
  by (simp add: row_sum_def foldl_fadd_Fin)

lemma sum_list_divide: "sum_list (map (\<lambda>c. f c / (S::real)) cs) = sum_list (map f cs) / S"
  by (induction cs) (simp_all add: add_divide_distrib)

lemma normalised_row_exact:
  assumes s: "0 \<le> s" and pos: "0 < sum_list (map (\<lambda>c. c + s) cs)"
    and nn: "\<forall>c \<in> set cs. 0 \<le> c"
  shows "normalised_row s (map Fin cs) =
           map (\<lambda>c. Fin ((c + s) / sum_list (map (\<lambda>c. c + s) cs))) cs
         \<and> (\<forall>c \<in> set cs. 0 \<le> (c + s) / sum_list (map (\<lambda>c. c + s) cs))
         \<and> row_sum (map (\<lambda>c. Fin ((c + s) / sum_list (map (\<lambda>c. c + s) cs))) cs) = Fin 1"
proof -
  let ?S = "sum_list (map (\<lambda>c. c + s) cs)"
  have sm: "map (\<lambda>y. fadd y (Fin s)) (map Fin cs) = map Fin (map (\<lambda>c. c + s) cs)"
    by simp
  have "normalised_row s (map Fin cs) = map (\<lambda>c. Fin ((c + s) / ?S)) cs"
    using pos unfolding normalised_row_def sm row_sum_Fin by (simp add: comp_def)
  moreover have "\<forall>c \<in> set cs. 0 \<le> (c + s) / ?S"
    using s pos nn by (simp add: divide_nonneg_pos)
  moreover have "row_sum (map (\<lambda>c. Fin ((c + s) / ?S)) cs) = Fin 1"
  proof -
    have "map (\<lambda>c. Fin ((c + s) / ?S)) cs = map Fin (map (\<lambda>c. (c + s) / ?S) cs)"
      by simp
    then show ?thesis
      using pos by (simp only: row_sum_Fin sum_list_divide) simp
  qed
  ultimately show ?thesis by blast
qed

text \<open>
  Claim C9. The call leaves its input as it was: the tensor at the input reference,
  and every tensor the store held, has the same value after the call, and the result
  is a tensor of its own.
\<close>

theorem bigrams_count_to_probabilities_keeps_input:
  assumes "a < length h" and "bigrams_count_to_probabilities h a s = (h', r)"
  shows "h' ! a = h ! a \<and> r \<noteq> a \<and> take (length h) h' = h"
  using assms by (auto simp: bigrams_count_to_probabilities_store nth_append)

theorem bigrams_count_to_probabilities_keeps_input_witness:
  "(0::nat) < length zero_row_counts
   \<and> fst (bigrams_count_to_probabilities zero_row_counts 0 0) ! 0 = zero_row_counts ! 0
   \<and> snd (bigrams_count_to_probabilities zero_row_counts 0 0) = 1"
proof -
  have l: "(0::nat) < length zero_row_counts" by (simp add: zero_row_counts_def)
  from bigrams_count_to_probabilities_keeps_input[OF l, of 0
      "fst (bigrams_count_to_probabilities zero_row_counts 0 0)"
      "snd (bigrams_count_to_probabilities zero_row_counts 0 0)"]
    l zero_row_counts_store
  show ?thesis by simp
qed

lemma row_sum_zeros: "\<forall>x \<in> set row. x = Fin 0 \<Longrightarrow> foldl fadd (Fin 0) row = Fin 0"
  by (induction row) auto

lemma normalised_zero_row:
  assumes "\<forall>x \<in> set row. x = Fin 0"
  shows "normalised_row 0 row = replicate (length row) NaN"
proof -
  have m: "map (\<lambda>y. fadd y (Fin 0)) row = row"
    using assms by (induction row) auto
  have "map (\<lambda>x. fdiv (fadd x (Fin 0)) (Fin 0)) row = map (\<lambda>x. NaN) row"
    using assms by (intro map_cong) auto
  then show ?thesis
    using assms
    by (simp add: normalised_row_def m row_sum_def row_sum_zeros map_replicate_const)
qed

text \<open>
  Claim C3, as the code has it. With smoothing 0, a row of the counts that is all
  zero has the row sum 0, and the code divides by it: every entry of that row of the
  result is \<open>0 / 0\<close>, which is NaN. No exception is raised and no zero is
  substituted.
\<close>

theorem zero_row_becomes_nan:
  assumes "a < length h" and "i < length (h ! a)"
    and "\<forall>x \<in> set (h ! a ! i). x = Fin 0"
    and "bigrams_count_to_probabilities h a 0 = (h', r)"
  shows "h' ! r ! i = replicate (length (h ! a ! i)) NaN"
  using assms
  by (auto simp: bigrams_count_to_probabilities_store nth_append normalised_zero_row)

theorem zero_row_becomes_nan_witness:
  "(0::nat) < length zero_row_counts \<and> (0::nat) < length (zero_row_counts ! 0)
   \<and> zero_row_counts ! 0 ! 0 = [Fin 0, Fin 0]
   \<and> bigrams_count_to_probabilities zero_row_counts 0 0 =
        ([[[Fin 0, Fin 0], [Fin 1, Fin 3]],
          [[NaN, NaN], [Fin (1 / 4), Fin (3 / 4)]],
          [[Fin 0], [Fin 4]]], 1)
   \<and> [[NaN, NaN], [Fin (1 / 4), Fin (3 / 4)]] ! 0 = [NaN, NaN]"
proof -
  have l: "(0::nat) < length zero_row_counts" "(0::nat) < length (zero_row_counts ! 0)"
    by (simp_all add: zero_row_counts_def)
  have z: "\<forall>x \<in> set (zero_row_counts ! 0 ! 0). x = Fin 0"
    by (simp add: zero_row_counts_def)
  from zero_row_becomes_nan[OF l z zero_row_counts_store] l zero_row_counts_store
  show ?thesis by (simp add: zero_row_counts_def eval_nat_numeral)
qed

text \<open>
  Claim C3 as stated fails: the zero row of the counts \<open>[[0, 0], [1, 3]]\<close> comes out
  as \<open>[NaN, NaN]\<close>, not as \<open>[0, 0]\<close>.
\<close>

theorem zero_row_not_zero_counterexample:
  "snd (bigrams_count_to_probabilities zero_row_counts 0 0) = 1
   \<and> fst (bigrams_count_to_probabilities zero_row_counts 0 0) ! 1 ! 0 = [NaN, NaN]
   \<and> fst (bigrams_count_to_probabilities zero_row_counts 0 0) ! 1 ! 0 \<noteq> [Fin 0, Fin 0]"
  by (simp add: zero_row_counts_store)

section \<open>Counting bigrams\<close>
























end
